theory Spec2Isabelle
  imports Complex_Main
begin

section \<open>Surface distance measurement (DistanceSurfaceMeasure)\<close>

text \<open>
  The TypeScript type \<open>number\<close> is an IEEE double. The model computes over the reals:
  \<open>Math.sqrt\<close> is \<open>sqrt\<close>, \<open>Math.pow(v, 2)\<close> is \<open>v\<^sup>2\<close>. A real has no NaN and no
  infinity, and HOL's \<open>v / 0\<close> is \<open>0\<close>, so the one quotient of the source whose divisor
  can be zero is a branch of its own below (\<open>NotFinite\<close>). Rounding is not modelled.

  Names follow the source; a leading underscore is dropped (\<open>_splitNum\<close> is
  \<open>splitNum\<close>, \<open>_calculateSurfaceDistance\<close> is \<open>calculateSurfaceDistance\<close>).
\<close>

record Cartesian2 =
  x :: real
  y :: real

datatype Cartesian3 = Cartesian3 real real real

record Cartographic =
  longitude :: real
  latitude :: real
  height :: real

text \<open>
  \<open>TypeError\<close>: a property is read from \<open>undefined\<close>. \<open>Error msg\<close>: the program's own
  \<open>throw new Error(msg)\<close>. \<open>NotFinite\<close>: the IEEE result is NaN or infinite, a value
  the reals do not have; the model stops there instead of computing on.
\<close>

datatype error = TypeError | Error string | NotFinite

text \<open>
  The instance (\<open>this\<close>): its sample count and the collaborators it calls, none of which
  is defined in the repository's sources at hand:
  \<^item> \<open>pickCartesian3 this p\<close> is \<open>pickCartesian3(this._viewer, p)\<close> of \<open>./utils\<close>, the
    terrain pick under a pixel, \<open>None\<close> when nothing is hit;
  \<^item> \<open>worldToWindowCoordinates this p\<close> is
    \<open>SceneTransforms.worldToWindowCoordinates(this._viewer.scene, p)\<close>, \<open>None\<close> for
    \<open>undefined\<close>;
  \<^item> \<open>fromCartesian\<close> is \<open>Cartographic.fromCartesian\<close>;
  \<^item> \<open>surfaceDistance this a b\<close> is the \<open>surfaceDistance\<close> of a new
    \<open>EllipsoidGeodesic\<close> after \<open>setEndPoints(a, b)\<close>.
\<close>

record DistanceSurfaceMeasure =
  splitNum :: real
  pickCartesian3 :: "Cartesian2 \<Rightarrow> Cartesian3 option"
  worldToWindowCoordinates :: "Cartesian3 \<Rightarrow> Cartesian2 option"
  fromCartesian :: "Cartesian3 \<Rightarrow> Cartographic"
  surfaceDistance :: "Cartographic \<Rightarrow> Cartographic \<Rightarrow> real"

text \<open>
  \<open>_findWindowPositionByPixelInterval\<close>. The guard returns the fresh \<open>Cartesian2(0, 0)\<close>.
  Past the guard the source divides by \<open>length\<close>; with \<open>length = 0\<close> (and so
  \<open>interval \<le> 0\<close>) both deltas are zero and the product of the quotient with them is NaN
  in both coordinates.
\<close>

definition findWindowPositionByPixelInterval ::
  "Cartesian2 \<Rightarrow> Cartesian2 \<Rightarrow> real \<Rightarrow> error + Cartesian2" where
  "findWindowPositionByPixelInterval startPosition endPosition interval =
     (let length = sqrt ((x endPosition - x startPosition)\<^sup>2 +
                         (y endPosition - y startPosition)\<^sup>2)
      in if length < interval then Inr \<lparr>x = 0, y = 0\<rparr>
         else if length = 0 then Inl NotFinite
         else Inr \<lparr>x = (interval / length) * (x endPosition - x startPosition)
                         + x startPosition,
                    y = (interval / length) * (y endPosition - y startPosition)
                         + y startPosition\<rparr>)"

text \<open>
  \<open>_calculateDetailSurfaceLength\<close>: \<open>innerS\<close> stays \<open>0\<close> unless both picks are truthy.
  The arithmetic is exact here; \<open>calculateDetailSurfaceLength_binary64\<close> below rounds it.
\<close>

definition calculateDetailSurfaceLength ::
  "DistanceSurfaceMeasure \<Rightarrow> Cartesian2 \<Rightarrow> Cartesian2 \<Rightarrow> real" where
  "calculateDetailSurfaceLength this startPoint endPoint =
     (case (pickCartesian3 this startPoint, pickCartesian3 this endPoint) of
        (Some surfaceStartCartesian3, Some surfaceEndCartesian3) \<Rightarrow>
          (let cartographicStart = fromCartesian this surfaceStartCartesian3;
               cartographicEnd = fromCartesian this surfaceEndCartesian3;
               innerS = surfaceDistance this cartographicStart cartographicEnd
           in sqrt (innerS\<^sup>2 + (height cartographicStart - height cartographicEnd)\<^sup>2))
      | _ \<Rightarrow> 0)"

text \<open>
  The first loop of \<open>_calculateSurfaceDistance\<close>:
  \<open>for (ii = 1; ii <= this._splitNum; ii += 1)\<close>, pushing one position per round.
\<close>

function sampleLoop ::
  "DistanceSurfaceMeasure \<Rightarrow> Cartesian2 \<Rightarrow> Cartesian2 \<Rightarrow> real \<Rightarrow> nat \<Rightarrow> Cartesian2 list
     \<Rightarrow> error + Cartesian2 list" where
  "sampleLoop this startPoint endPoint interval ii sampleWindowPoints =
     (if real ii \<le> splitNum this then
        (case findWindowPositionByPixelInterval startPoint endPoint (real ii * interval) of
           Inl e \<Rightarrow> Inl e
         | Inr tempPositon \<Rightarrow>
             sampleLoop this startPoint endPoint interval (ii + 1)
               (sampleWindowPoints @ [tempPositon]))
      else Inr sampleWindowPoints)"
  by pat_completeness auto
termination
proof (relation "measure (\<lambda>(this, s, e, i, ii, pts). Suc (nat \<lfloor>splitNum this\<rfloor>) - ii)")
  show "wf (measure (\<lambda>(this, s, e, i, ii, pts). Suc (nat \<lfloor>splitNum this\<rfloor>) - ii))"
    by simp
next
  fix this :: DistanceSurfaceMeasure and startPoint endPoint :: Cartesian2
    and interval :: real and ii :: nat and sampleWindowPoints :: "Cartesian2 list"
    and tempPositon :: Cartesian2
  assume "real ii \<le> splitNum this"
  then have "int ii \<le> \<lfloor>splitNum this\<rfloor>"
    by (simp add: le_floor_iff)
  then have "ii \<le> nat \<lfloor>splitNum this\<rfloor>"
    by linarith
  then show "((this, startPoint, endPoint, interval, ii + 1, sampleWindowPoints @ [tempPositon]),
              (this, startPoint, endPoint, interval, ii, sampleWindowPoints))
             \<in> measure (\<lambda>(this, s, e, i, ii, pts). Suc (nat \<lfloor>splitNum this\<rfloor>) - ii)"
    by simp
qed

text \<open>
  Lines 40 to 53: the sample list. In
  \<open>Math.pow(endPoint.x - startPoint.x, 2) + (endPoint.y - startPoint.y, 2)\<close> the second
  summand is a comma expression, whose value is its right operand, \<open>2\<close>.
  The quotient by \<open>_splitNum\<close> is read only inside the loop, where \<open>1 \<le> _splitNum\<close>.
\<close>

definition sampleWindowPoints ::
  "DistanceSurfaceMeasure \<Rightarrow> Cartesian2 \<Rightarrow> Cartesian2 \<Rightarrow> error + Cartesian2 list" where
  "sampleWindowPoints this startPoint endPoint =
     (let interval = sqrt ((x endPoint - x startPoint)\<^sup>2 + 2) / splitNum this
      in case sampleLoop this startPoint endPoint interval 1 [startPoint] of
           Inl e \<Rightarrow> Inl e
         | Inr pts \<Rightarrow> Inr (pts @ [endPoint]))"

text \<open>
  The second loop: \<open>for (jj = 0; jj < sampleWindowPoints.length - 1; jj += 1)\<close>. Both
  indices it reads are inside the list.
\<close>

function distanceLoop ::
  "DistanceSurfaceMeasure \<Rightarrow> Cartesian2 list \<Rightarrow> nat \<Rightarrow> real \<Rightarrow> real" where
  "distanceLoop this pts jj resultDistance =
     (if int jj < int (length pts) - 1 then
        distanceLoop this pts (jj + 1)
          (resultDistance + calculateDetailSurfaceLength this (pts ! (jj + 1)) (pts ! jj))
      else resultDistance)"
  by pat_completeness auto
termination
  by (relation "measure (\<lambda>(this, pts, jj, r). length pts - jj)") auto

definition calculateSurfaceDistance ::
  "DistanceSurfaceMeasure \<Rightarrow> Cartesian2 \<Rightarrow> Cartesian2 \<Rightarrow> error + real" where
  "calculateSurfaceDistance this startPoint endPoint =
     (case sampleWindowPoints this startPoint endPoint of
        Inl e \<Rightarrow> Inl e
      | Inr pts \<Rightarrow> Inr (distanceLoop this pts 0 0))"

text \<open>
  \<open>getDistance\<close>. The postfix \<open>!\<close> is erased at compile time; with a projection that is
  \<open>undefined\<close>, \<open>_calculateSurfaceDistance\<close> reads \<open>.x\<close> of it in its second statement,
  before any sample is taken.
\<close>

definition getDistance ::
  "DistanceSurfaceMeasure \<Rightarrow> Cartesian3 \<Rightarrow> Cartesian3 \<Rightarrow> error + real" where
  "getDistance this pos1 pos2 =
     (case (worldToWindowCoordinates this pos1, worldToWindowCoordinates this pos2) of
        (Some start, Some end') \<Rightarrow> calculateSurfaceDistance this start end'
      | _ \<Rightarrow> Inl TypeError)"

section \<open>The segment length in binary64\<close>




section \<open>The measurement lifecycle (Measure)\<close>

text \<open>
  The methods of the class \<open>Measure\<close> carry its name: \<open>Measure_start\<close> is the protected
  \<open>_start\<close>, \<open>Measure_end\<close> is \<open>end\<close>, \<open>Measure_destroy\<close> is \<open>destroy\<close> and
  \<open>Measure_destroyed\<close> is the getter \<open>destroyed\<close>. The public \<open>start\<close> of the base class
  has an empty body; the one modelled is that of \<open>DistanceSurfaceMeasure\<close>.
\<close>

datatype Status = INIT | WORKING | DESTROY

datatype DrawType = POLYGON | POLYLINE | POINT | CIRCLE | RECTANGLE

text \<open>
  The second parameter of \<open>_start\<close>, \<open>{ style?, clampToGround? }\<close>; a style is an opaque
  object. The object \<open>{ ...style, clampToGround }\<close> handed to the drawing tool carries the
  same two parts.
\<close>

record 'style StartOptions =
  style :: "'style option"
  clampToGround :: "bool option"

text \<open>
  The configuration \<open>_start\<close> passes to \<open>drawer.start\<close>. Its two callbacks are the same
  in every call (the instance's \<open>_updateLabelFunc\<close> and the \<open>onEnd\<close> of the constructor's
  options) and are left out.
\<close>

record 'style DrawConfig =
  drawType :: DrawType
  dynamicOptions :: "'style StartOptions"
  finalOptions :: "'style StartOptions"

datatype 'style DrawerCall = DrawerStart "'style DrawConfig" | DrawerReset

text \<open>
  The drawing tool is the package \<open>@cesium-extends/drawer\<close>. The model keeps of it the
  shape in progress and, as a history, the calls it has received.
\<close>

record 'style Drawer =
  inProgress :: "'style DrawConfig option"
  calls :: "'style DrawerCall list"

text \<open>
  Modelled from the spec: \<open>Drawer.start\<close> and \<open>Drawer.reset\<close>, which the repository calls
  and does not define. The spec's interface of the drawing tool is \<open>start(config)\<close>, which
  begins a shape, and \<open>reset()\<close>, which clears the shape in progress.
\<close>

definition Drawer_start :: "'style DrawConfig \<Rightarrow> 'style Drawer \<Rightarrow> 'style Drawer" where
  "Drawer_start config d =
     d\<lparr>inProgress := Some config, calls := calls d @ [DrawerStart config]\<rparr>"

definition Drawer_reset :: "'style Drawer \<Rightarrow> 'style Drawer" where
  "Drawer_reset d = d\<lparr>inProgress := None, calls := calls d @ [DrawerReset]\<rparr>"

datatype MouseTooltip = TooltipHidden | TooltipShown | TooltipDestroyed

text \<open>
  Of the viewer the lifecycle reads \<open>isDestroyed()\<close> and changes whether
  \<open>scene.primitives\<close> holds the label collection.
\<close>

record Viewer =
  isDestroyed :: bool
  primitivesHoldLabels :: bool

text \<open>
  The fields of a \<open>Measure\<close> that its lifecycle methods read or write: \<open>_status\<close>,
  the contents of the label collection \<open>_labels\<close>, \<open>drawer\<close>, \<open>mouseTooltip\<close>
  (\<open>None\<close> for \<open>null\<close>) and \<open>_viewer\<close>.
\<close>

record ('style, 'label) Measure =
  status :: Status
  labels :: "'label list"
  drawer :: "'style Drawer"
  mouseTooltip :: "MouseTooltip option"
  viewer :: Viewer

text \<open>The getter \<open>destroyed\<close>.\<close>

definition Measure_destroyed :: "('style, 'label) Measure \<Rightarrow> bool" where
  "Measure_destroyed this = (status this = DESTROY)"

text \<open>
  The constructor, as far as the lifecycle goes: it throws without a viewer; otherwise the
  tooltip, unless disabled, is created and hidden, the drawing tool is new, the empty
  label collection is added to the scene and the status is \<open>INIT\<close>.
\<close>

definition Measure_new ::
  "Viewer option \<Rightarrow> bool \<Rightarrow> error + ('style, 'label) Measure" where
  "Measure_new givenViewer disableTooltip =
     (case givenViewer of
        None \<Rightarrow> Inl (Error ''undefined viewer'')
      | Some v \<Rightarrow>
          Inr \<lparr>status = INIT, labels = [],
               drawer = \<lparr>inProgress = None, calls = []\<rparr>,
               mouseTooltip = (if disableTooltip then None else Some TooltipHidden),
               viewer = v\<lparr>primitivesHoldLabels := True\<rparr>\<rparr>)"

text \<open>
  The protected \<open>_start(type, options)\<close>: \<open>options ?? {}\<close> is destructured, then the
  status is tested.
\<close>

definition Measure_start ::
  "DrawType \<Rightarrow> 'style StartOptions option \<Rightarrow> ('style, 'label) Measure
     \<Rightarrow> ('style, 'label) Measure" where
  "Measure_start type options this =
     (let opts = (case options of
                    None \<Rightarrow> \<lparr>style = None, clampToGround = None\<rparr>
                  | Some given \<Rightarrow> given)
      in if status this \<noteq> INIT then this
         else this\<lparr>drawer := Drawer_start
                                \<lparr>drawType = type, dynamicOptions = opts, finalOptions = opts\<rparr>
                                (drawer this),
                   status := WORKING\<rparr>)"

text \<open>
  The public \<open>start\<close> of \<open>DistanceSurfaceMeasure\<close>:
  \<open>this._start('POLYLINE', { clampToGround: true, style })\<close>.
\<close>

definition DistanceSurfaceMeasure_start ::
  "'style \<Rightarrow> ('style, 'label) Measure \<Rightarrow> ('style, 'label) Measure" where
  "DistanceSurfaceMeasure_start givenStyle this =
     Measure_start POLYLINE (Some \<lparr>style = Some givenStyle, clampToGround = Some True\<rparr>) this"

text \<open>\<open>end()\<close>: three statements, none of them under a test of the status.\<close>

definition Measure_end :: "('style, 'label) Measure \<Rightarrow> ('style, 'label) Measure" where
  "Measure_end this =
     this\<lparr>drawer := Drawer_reset (drawer this), labels := [], status := INIT\<rparr>"

text \<open>
  \<open>destroy()\<close>: \<open>end()\<close>, then \<open>mouseTooltip?.destroy()\<close>, then the label collection is
  taken out of the scene unless the viewer is destroyed, then the status is set.
\<close>

definition Measure_destroy :: "('style, 'label) Measure \<Rightarrow> ('style, 'label) Measure" where
  "Measure_destroy this =
     (let ended = Measure_end this;
          released = ended\<lparr>mouseTooltip := map_option (\<lambda>t. TooltipDestroyed) (mouseTooltip ended)\<rparr>;
          removed = (if \<not> isDestroyed (viewer released)
                     then released\<lparr>viewer := (viewer released)\<lparr>primitivesHoldLabels := False\<rparr>\<rparr>
                     else released)
      in removed\<lparr>status := DESTROY\<rparr>)"

section \<open>Example scenes\<close>

text \<open>
  A scene for concrete runs. The camera looks along the third axis: a world point with a
  negative third coordinate is behind it and has no projection. Pixels with \<open>y < 0\<close> show
  sky, so the pick misses there; below, the terrain rises by four metres per pixel row.
  The geodesic distance between two terrain points is three metres per row.
\<close>

fun exampleFromCartesian :: "Cartesian3 \<Rightarrow> Cartographic" where
  "exampleFromCartesian (Cartesian3 a b c) = \<lparr>longitude = a, latitude = b, height = c\<rparr>"

fun exampleProject :: "Cartesian3 \<Rightarrow> Cartesian2 option" where
  "exampleProject (Cartesian3 a b c) = (if c < 0 then None else Some \<lparr>x = a, y = b\<rparr>)"

definition examplePick :: "Cartesian2 \<Rightarrow> Cartesian3 option" where
  "examplePick p = (if y p < 0 then None else Some (Cartesian3 (x p) (y p) (4 * y p)))"

definition exampleSurfaceDistance :: "Cartographic \<Rightarrow> Cartographic \<Rightarrow> real" where
  "exampleSurfaceDistance a b = 3 * \<bar>latitude a - latitude b\<bar>"

definition exampleScene :: DistanceSurfaceMeasure where
  "exampleScene = \<lparr>splitNum = 1, pickCartesian3 = examplePick,
                    worldToWindowCoordinates = exampleProject,
                    fromCartesian = exampleFromCartesian,
                    surfaceDistance = exampleSurfaceDistance\<rparr>"




text \<open>A measurement tool as the constructor leaves it, with its tooltip hidden.\<close>

definition idleMeasure :: "(string, string) Measure" where
  "idleMeasure = \<lparr>status = INIT, labels = [], drawer = \<lparr>inProgress = None, calls = []\<rparr>,
                   mouseTooltip = Some TooltipHidden,
                   viewer = \<lparr>isDestroyed = False, primitivesHoldLabels = True\<rparr>\<rparr>"

section \<open>The sample list and the accumulated total\<close>

text \<open>
  With a positive interval the position finder never leaves the reals: either the guard
  fires or the divisor is positive.
\<close>

lemma findWindowPosition_total:
  assumes "0 < interval"
  shows "findWindowPositionByPixelInterval s e interval
         = Inr (projr (findWindowPositionByPixelInterval s e interval))"
proof (cases "sqrt ((x e - x s)\<^sup>2 + (y e - y s)\<^sup>2) < interval")
  case True
  then show ?thesis by (simp add: findWindowPositionByPixelInterval_def)
next
  case False
  with assms have "sqrt ((x e - x s)\<^sup>2 + (y e - y s)\<^sup>2) \<noteq> 0" by linarith
  with False show ?thesis by (simp add: findWindowPositionByPixelInterval_def Let_def)
qed

lemma sampleLoop_eq:
  assumes "0 < interval" and "1 \<le> ii"
  shows "sampleLoop this s e interval ii pts =
         Inr (pts @ map (\<lambda>k. projr (findWindowPositionByPixelInterval s e (real k * interval)))
                        [ii ..< Suc (nat \<lfloor>splitNum this\<rfloor>)])"
  using assms
proof (induction this s e interval ii pts rule: sampleLoop.induct)
  case (1 this s e interval ii pts)
  show ?case
  proof (cases "real ii \<le> splitNum this")
    case True
    then have "int ii \<le> \<lfloor>splitNum this\<rfloor>" by (simp add: le_floor_iff)
    then have le: "ii < Suc (nat \<lfloor>splitNum this\<rfloor>)" by linarith
    from "1.prems" have pos: "0 < real ii * interval" by simp
    define p where "p = projr (findWindowPositionByPixelInterval s e (real ii * interval))"
    have f: "findWindowPositionByPixelInterval s e (real ii * interval) = Inr p"
      unfolding p_def by (rule findWindowPosition_total [OF pos])
    have ih: "sampleLoop this s e interval (ii + 1) (pts @ [p]) =
              Inr ((pts @ [p]) @
                   map (\<lambda>k. projr (findWindowPositionByPixelInterval s e (real k * interval)))
                       [ii + 1 ..< Suc (nat \<lfloor>splitNum this\<rfloor>)])"
      using "1.IH" [OF True f] "1.prems" by simp
    have "sampleLoop this s e interval ii pts = sampleLoop this s e interval (ii + 1) (pts @ [p])"
      by (subst sampleLoop.simps) (simp add: True f del: sampleLoop.simps)
    also note ih
    finally have "sampleLoop this s e interval ii pts =
          Inr (pts @ p # map (\<lambda>k. projr (findWindowPositionByPixelInterval s e (real k * interval)))
                             [ii + 1 ..< Suc (nat \<lfloor>splitNum this\<rfloor>)])"
      by simp
    moreover have "[ii ..< Suc (nat \<lfloor>splitNum this\<rfloor>)] = ii # [ii + 1 ..< Suc (nat \<lfloor>splitNum this\<rfloor>)]"
      using le by (simp add: upt_conv_Cons del: upt_Suc)
    ultimately show ?thesis by (simp add: p_def del: upt_Suc sampleLoop.simps)
  next
    case False
    then have "\<not> int ii \<le> \<lfloor>splitNum this\<rfloor>" by (simp add: le_floor_iff)
    with "1.prems" have "\<not> ii < Suc (nat \<lfloor>splitNum this\<rfloor>)" by linarith
    with False show ?thesis by (subst sampleLoop.simps) simp
  qed
qed

lemma sampleWindowPoints_eq:
  "sampleWindowPoints this s e =
     Inr (s # map (\<lambda>k. projr (findWindowPositionByPixelInterval s e
                               (real k * (sqrt ((x e - x s)\<^sup>2 + 2) / splitNum this))))
                  [1 ..< Suc (nat \<lfloor>splitNum this\<rfloor>)] @ [e])"
proof (cases "1 \<le> splitNum this")
  case True
  have "0 < sqrt ((x e - x s)\<^sup>2 + 2)"
    by (simp add: add_nonneg_pos)
  with True have "0 < sqrt ((x e - x s)\<^sup>2 + 2) / splitNum this"
    by simp
  then show ?thesis
    by (simp add: sampleWindowPoints_def sampleLoop_eq del: sampleLoop.simps)
next
  case False
  then have "\<lfloor>splitNum this\<rfloor> < 1" by (simp add: floor_less_iff)
  then have "nat \<lfloor>splitNum this\<rfloor> = 0" by simp
  moreover from False have "sampleLoop this s e (sqrt ((x e - x s)\<^sup>2 + 2) / splitNum this) 1 [s] = Inr [s]"
    by (subst sampleLoop.simps) simp
  ultimately show ?thesis
    by (simp add: sampleWindowPoints_def del: sampleLoop.simps)
qed

lemma sampleWindowPoints_length:
  assumes "splitNum this = real n"
  shows "\<exists>pts. sampleWindowPoints this s e = Inr pts \<and> length pts = n + 2"
  by (simp add: sampleWindowPoints_eq assms)

lemma sampleWindowPoints_no_samples:
  assumes "splitNum this < 1"
  shows "sampleWindowPoints this s e = Inr [s, e]"
proof -
  from assms have "\<lfloor>splitNum this\<rfloor> < 1" by (simp add: floor_less_iff)
  then have "nat \<lfloor>splitNum this\<rfloor> = 0" by simp
  then show ?thesis by (simp add: sampleWindowPoints_eq)
qed

lemma distanceLoop_eq:
  "distanceLoop this pts jj r =
     r + (\<Sum>k = jj ..< length pts - 1.
            calculateDetailSurfaceLength this (pts ! (k + 1)) (pts ! k))"
proof (induction this pts jj r rule: distanceLoop.induct)
  case (1 this pts jj r)
  show ?case
  proof (cases "int jj < int (length pts) - 1")
    case True
    then have lt: "jj < length pts - 1" by linarith
    have "distanceLoop this pts jj r =
          distanceLoop this pts (jj + 1)
            (r + calculateDetailSurfaceLength this (pts ! (jj + 1)) (pts ! jj))"
      using True by (subst distanceLoop.simps) simp
    also have "\<dots> = (r + calculateDetailSurfaceLength this (pts ! (jj + 1)) (pts ! jj)) +
          (\<Sum>k = jj + 1 ..< length pts - 1.
             calculateDetailSurfaceLength this (pts ! (k + 1)) (pts ! k))"
      by (rule "1.IH" [OF True])
    also have "\<dots> = r + (\<Sum>k = jj ..< length pts - 1.
             calculateDetailSurfaceLength this (pts ! (k + 1)) (pts ! k))"
      using lt by (simp add: sum.atLeast_Suc_lessThan)
    finally show ?thesis .
  next
    case False
    then have "\<not> jj < length pts - 1" by linarith
    with False show ?thesis by (subst distanceLoop.simps) simp
  qed
qed

lemma calculateSurfaceDistance_eq:
  "\<exists>pts. sampleWindowPoints this s e = Inr pts \<and>
         calculateSurfaceDistance this s e =
           Inr (\<Sum>k < length pts - 1.
                  calculateDetailSurfaceLength this (pts ! (k + 1)) (pts ! k))"
  by (simp add: calculateSurfaceDistance_def sampleWindowPoints_eq distanceLoop_eq
        atLeast0LessThan del: distanceLoop.simps)

section \<open>Where the samples lie\<close>

text \<open>
  C1. The claim: with \<open>n > 0\<close> samples the list has \<open>n + 2\<close> points, and the \<open>k\<close>-th
  interior point lies at the fraction \<open>k / n\<close> of the pixel distance
  \<open>sqrt (dx\<^sup>2 + dy\<^sup>2)\<close> from \<open>p0\<close> to \<open>p1\<close>. The list has \<open>n + 2\<close> points
  (\<open>sampleWindowPoints_length\<close>), but the step between samples is
  \<open>sqrt (dx\<^sup>2 + 2) / n\<close>. On the vertical segment from \<open>(0, 0)\<close> to \<open>(0, 10)\<close> with two
  samples the interior points are \<open>(0, sqrt 2 / 2)\<close> and \<open>(0, sqrt 2)\<close>, short of the
  \<open>(0, 5)\<close> and \<open>(0, 10)\<close> of the claim.
\<close>

theorem vertical_segment_samples:
  "sampleWindowPoints (this\<lparr>splitNum := 2\<rparr>) \<lparr>x = 0, y = 0\<rparr> \<lparr>x = 0, y = 10\<rparr>
     = Inr [\<lparr>x = 0, y = 0\<rparr>, \<lparr>x = 0, y = sqrt 2 / 2\<rparr>, \<lparr>x = 0, y = sqrt 2\<rparr>, \<lparr>x = 0, y = 10\<rparr>]
   \<and> sqrt 2 / 2 < (5::real) \<and> sqrt 2 < (10::real)"
proof -
  have ten: "sqrt (100::real) = 10" by (rule real_sqrt_unique) simp_all
  have lt: "sqrt (2::real) < 2" by (rule real_less_lsqrt) simp_all
  have l: "[Suc 0 ..< 3] = [Suc 0, 2]" by code_simp
  have one: "findWindowPositionByPixelInterval \<lparr>x = 0, y = 0\<rparr> \<lparr>x = 0, y = 10\<rparr> (sqrt 2 / 2)
             = Inr \<lparr>x = 0, y = sqrt 2 / 2\<rparr>"
    using lt by (simp add: findWindowPositionByPixelInterval_def ten)
  have two: "findWindowPositionByPixelInterval \<lparr>x = 0, y = 0\<rparr> \<lparr>x = 0, y = 10\<rparr> (sqrt 2)
             = Inr \<lparr>x = 0, y = sqrt 2\<rparr>"
    using lt by (simp add: findWindowPositionByPixelInterval_def ten)
  show ?thesis
    using one two lt by (simp add: sampleWindowPoints_eq l del: upt_Suc)
qed

text \<open>
  C3. The claim: between identical endpoints every sample equals the endpoint, and with
  sample count \<open>0\<close> the list is \<open>[p0, p1]\<close>. The second half holds
  (\<open>sampleWindowPoints_no_samples\<close>). The first does not: from \<open>(1, 1)\<close> to itself with
  one sample the step is \<open>sqrt 2\<close>, more than the pixel distance \<open>0\<close>, and the interior
  sample is the origin.
\<close>

theorem identical_endpoints_samples:
  "sampleWindowPoints (this\<lparr>splitNum := 1\<rparr>) \<lparr>x = 1, y = 1\<rparr> \<lparr>x = 1, y = 1\<rparr>
     = Inr [\<lparr>x = 1, y = 1\<rparr>, \<lparr>x = 0, y = 0\<rparr>, \<lparr>x = 1, y = 1\<rparr>]"
  by (simp add: sampleWindowPoints_eq findWindowPositionByPixelInterval_def)

lemma last_sample_at_origin:
  assumes "0 < n" and "splitNum this = real n" and "(y e - y s)\<^sup>2 < 2"
  shows "\<exists>pts. sampleWindowPoints this s e = Inr pts \<and> length pts = n + 2 \<and>
               pts ! n = \<lparr>x = 0, y = 0\<rparr>"
proof -
  define f where "f = (\<lambda>k. projr (findWindowPositionByPixelInterval s e
                               (real k * (sqrt ((x e - x s)\<^sup>2 + 2) / real n))))"
  have eq: "sampleWindowPoints this s e = Inr (s # map f [1 ..< Suc n] @ [e])"
    by (simp add: sampleWindowPoints_eq assms(2) f_def)
  have "sqrt ((x e - x s)\<^sup>2 + (y e - y s)\<^sup>2) < sqrt ((x e - x s)\<^sup>2 + 2)"
    using assms(3) by simp
  then have "findWindowPositionByPixelInterval s e (sqrt ((x e - x s)\<^sup>2 + 2))
             = Inr \<lparr>x = 0, y = 0\<rparr>"
    by (simp add: findWindowPositionByPixelInterval_def)
  moreover from assms(1) have "real n * (sqrt ((x e - x s)\<^sup>2 + 2) / real n)
      = sqrt ((x e - x s)\<^sup>2 + 2)"
    by simp
  ultimately have fn: "f n = \<lparr>x = 0, y = 0\<rparr>"
    by (simp add: f_def)
  from assms(1) obtain m where m: "n = Suc m" by (cases n) auto
  have "(s # map f [1 ..< Suc n] @ [e]) ! n = (map f [1 ..< Suc n] @ [e]) ! m"
    by (simp add: m)
  also have "\<dots> = map f [1 ..< Suc n] ! m"
    by (simp add: nth_append m)
  also have "\<dots> = f (1 + m)"
    by (simp add: m del: upt_Suc)
  also have "\<dots> = \<lparr>x = 0, y = 0\<rparr>"
    using fn by (simp add: m)
  finally have "(s # map f [1 ..< Suc n] @ [e]) ! n = \<lparr>x = 0, y = 0\<rparr>" .
  with eq show ?thesis by simp
qed

text \<open>
  C10. Whenever the requested interval is strictly greater than the pixel distance between
  the two positions, \<open>_findWindowPositionByPixelInterval\<close> returns the origin \<open>(0, 0)\<close>.
  Inside \<open>_calculateSurfaceDistance\<close> this happens: for every sample count \<open>n > 0\<close> and
  every segment whose endpoints are less than \<open>sqrt 2\<close> pixel rows apart, the last interior
  sample, which the second loop hands to the terrain pick, is the origin.
\<close>

theorem interval_beyond_length_gives_origin:
  "(sqrt ((x e - x s)\<^sup>2 + (y e - y s)\<^sup>2) < interval \<longrightarrow>
      findWindowPositionByPixelInterval s e interval = Inr \<lparr>x = 0, y = 0\<rparr>) \<and>
   (0 < n \<and> splitNum this = real n \<and> (y e - y s)\<^sup>2 < 2 \<longrightarrow>
      (\<exists>pts. sampleWindowPoints this s e = Inr pts \<and> length pts = n + 2 \<and>
             pts ! n = \<lparr>x = 0, y = 0\<rparr>))"
proof
  show "sqrt ((x e - x s)\<^sup>2 + (y e - y s)\<^sup>2) < interval \<longrightarrow>
      findWindowPositionByPixelInterval s e interval = Inr \<lparr>x = 0, y = 0\<rparr>"
    by (simp add: findWindowPositionByPixelInterval_def)
next
  show "0 < n \<and> splitNum this = real n \<and> (y e - y s)\<^sup>2 < 2 \<longrightarrow>
      (\<exists>pts. sampleWindowPoints this s e = Inr pts \<and> length pts = n + 2 \<and>
             pts ! n = \<lparr>x = 0, y = 0\<rparr>)"
    using last_sample_at_origin by blast
qed

theorem interval_beyond_length_gives_origin_witness:
  "sqrt ((x \<lparr>x = 4, y = 5\<rparr> - x \<lparr>x = 1, y = 1\<rparr>)\<^sup>2 + (y \<lparr>x = 4, y = 5\<rparr> - y \<lparr>x = 1, y = 1\<rparr>)\<^sup>2) < 6 \<and>
   findWindowPositionByPixelInterval \<lparr>x = 1, y = 1\<rparr> \<lparr>x = 4, y = 5\<rparr> 6 = Inr \<lparr>x = 0, y = 0\<rparr> \<and>
   (0::nat) < 1 \<and> splitNum exampleScene = real 1 \<and>
   (y \<lparr>x = 4, y = 2\<rparr> - y \<lparr>x = 1, y = 1\<rparr>)\<^sup>2 < 2 \<and>
   sampleWindowPoints exampleScene \<lparr>x = 1, y = 1\<rparr> \<lparr>x = 4, y = 2\<rparr>
     = Inr [\<lparr>x = 1, y = 1\<rparr>, \<lparr>x = 0, y = 0\<rparr>, \<lparr>x = 4, y = 2\<rparr>]"
proof -
  have five: "sqrt (25::real) = 5" by (rule real_sqrt_unique) simp_all
  have a: "sqrt ((x \<lparr>x = 4, y = 5\<rparr> - x \<lparr>x = 1, y = 1\<rparr>)\<^sup>2
                 + (y \<lparr>x = 4, y = 5\<rparr> - y \<lparr>x = 1, y = 1\<rparr>)\<^sup>2) < 6"
    by (simp add: five)
  have b: "splitNum exampleScene = real 1" by (simp add: exampleScene_def)
  have c: "(y \<lparr>x = 4, y = 2\<rparr> - y \<lparr>x = 1, y = 1\<rparr>)\<^sup>2 < 2" by simp
  from interval_beyond_length_gives_origin
         [of "\<lparr>x = 4, y = 5\<rparr>" "\<lparr>x = 1, y = 1\<rparr>" 6 1 exampleScene] a
  have first: "findWindowPositionByPixelInterval \<lparr>x = 1, y = 1\<rparr> \<lparr>x = 4, y = 5\<rparr> 6
               = Inr \<lparr>x = 0, y = 0\<rparr>"
    by blast
  from interval_beyond_length_gives_origin
         [of "\<lparr>x = 4, y = 2\<rparr>" "\<lparr>x = 1, y = 1\<rparr>" 0 1 exampleScene] b c
  obtain pts where pts: "sampleWindowPoints exampleScene \<lparr>x = 1, y = 1\<rparr> \<lparr>x = 4, y = 2\<rparr> = Inr pts"
    "length pts = 1 + 2" "pts ! 1 = \<lparr>x = 0, y = 0\<rparr>"
    by auto
  have "sampleWindowPoints exampleScene \<lparr>x = 1, y = 1\<rparr> \<lparr>x = 4, y = 2\<rparr>
     = Inr [\<lparr>x = 1, y = 1\<rparr>, projr (findWindowPositionByPixelInterval \<lparr>x = 1, y = 1\<rparr> \<lparr>x = 4, y = 2\<rparr>
              (sqrt 11)), \<lparr>x = 4, y = 2\<rparr>]"
    by (simp add: sampleWindowPoints_eq exampleScene_def)
  with pts have "sampleWindowPoints exampleScene \<lparr>x = 1, y = 1\<rparr> \<lparr>x = 4, y = 2\<rparr>
     = Inr [\<lparr>x = 1, y = 1\<rparr>, \<lparr>x = 0, y = 0\<rparr>, \<lparr>x = 4, y = 2\<rparr>]"
    by auto
  with a b c first show ?thesis by simp
qed

section \<open>Terrain pick misses\<close>

lemma calculateDetailSurfaceLength_miss:
  "pickCartesian3 this a = None \<or> pickCartesian3 this b = None \<Longrightarrow>
   calculateDetailSurfaceLength this a b = 0"
  by (auto simp: calculateDetailSurfaceLength_def split: option.splits)

text \<open>
  C5. Take the sample list of a surface-distance computation and two consecutive points
  of it. If the terrain pick misses at either of them, the length of that segment is
  exactly \<open>0\<close>, and the computation returns the sum of the lengths of the other
  segments: the segment adds nothing, and nothing is raised.
\<close>

theorem pick_miss_contributes_zero:
  assumes "sampleWindowPoints this startPoint endPoint = Inr pts"
    and "jj + 1 < length pts"
    and "pickCartesian3 this (pts ! jj) = None \<or> pickCartesian3 this (pts ! (jj + 1)) = None"
  shows "calculateDetailSurfaceLength this (pts ! (jj + 1)) (pts ! jj) = 0 \<and>
         calculateSurfaceDistance this startPoint endPoint =
           Inr (\<Sum>k \<in> {..< length pts - 1} - {jj}.
                  calculateDetailSurfaceLength this (pts ! (k + 1)) (pts ! k))"
proof -
  have zero: "calculateDetailSurfaceLength this (pts ! (jj + 1)) (pts ! jj) = 0"
    using assms(3) by (auto intro: calculateDetailSurfaceLength_miss)
  from calculateSurfaceDistance_eq [of this startPoint endPoint] assms(1)
  have total: "calculateSurfaceDistance this startPoint endPoint =
        Inr (\<Sum>k < length pts - 1. calculateDetailSurfaceLength this (pts ! (k + 1)) (pts ! k))"
    by auto
  from assms(2) have "jj \<in> {..< length pts - 1}" by auto
  then have "(\<Sum>k < length pts - 1. calculateDetailSurfaceLength this (pts ! (k + 1)) (pts ! k)) =
        calculateDetailSurfaceLength this (pts ! (jj + 1)) (pts ! jj) +
        (\<Sum>k \<in> {..< length pts - 1} - {jj}.
           calculateDetailSurfaceLength this (pts ! (k + 1)) (pts ! k))"
    by (simp add: sum.remove)
  with zero total show ?thesis by simp
qed

lemma example_samples:
  "sampleWindowPoints exampleScene \<lparr>x = 0, y = -1\<rparr> \<lparr>x = 0, y = 0\<rparr>
     = Inr [\<lparr>x = 0, y = -1\<rparr>, \<lparr>x = 0, y = 0\<rparr>, \<lparr>x = 0, y = 0\<rparr>]"
  by (simp add: sampleWindowPoints_eq exampleScene_def findWindowPositionByPixelInterval_def)

theorem pick_miss_contributes_zero_witness:
  "sampleWindowPoints exampleScene \<lparr>x = 0, y = -1\<rparr> \<lparr>x = 0, y = 0\<rparr>
     = Inr [\<lparr>x = 0, y = -1\<rparr>, \<lparr>x = 0, y = 0\<rparr>, \<lparr>x = 0, y = 0\<rparr>] \<and>
   pickCartesian3 exampleScene \<lparr>x = 0, y = -1\<rparr> = None \<and>
   calculateDetailSurfaceLength exampleScene \<lparr>x = 0, y = 0\<rparr> \<lparr>x = 0, y = -1\<rparr> = 0 \<and>
   calculateSurfaceDistance exampleScene \<lparr>x = 0, y = -1\<rparr> \<lparr>x = 0, y = 0\<rparr> = Inr 0"
proof -
  have s: "sampleWindowPoints exampleScene \<lparr>x = 0, y = -1\<rparr> \<lparr>x = 0, y = 0\<rparr>
     = Inr [\<lparr>x = 0, y = -1\<rparr>, \<lparr>x = 0, y = 0\<rparr>, \<lparr>x = 0, y = 0\<rparr>]"
    by (rule example_samples)
  have m: "pickCartesian3 exampleScene \<lparr>x = 0, y = -1\<rparr> = None"
    by (simp add: exampleScene_def examplePick_def)
  have d: "calculateDetailSurfaceLength exampleScene \<lparr>x = 0, y = 0\<rparr> \<lparr>x = 0, y = 0\<rparr> = 0"
    by (simp add: calculateDetailSurfaceLength_def exampleScene_def examplePick_def
          exampleSurfaceDistance_def)
  have "{..<2::nat} - {0} = {1}" by auto
  with pick_miss_contributes_zero [of exampleScene "\<lparr>x = 0, y = -1\<rparr>" "\<lparr>x = 0, y = 0\<rparr>"
      "[\<lparr>x = 0, y = -1\<rparr>, \<lparr>x = 0, y = 0\<rparr>, \<lparr>x = 0, y = 0\<rparr>]" 0] s m d
  show ?thesis by simp
qed

section \<open>Segment lengths\<close>

text \<open>Runs of the example scene on the pixel column \<open>x = 0\<close>.\<close>

lemma example_pick_ground:
  "0 \<le> v \<Longrightarrow> pickCartesian3 exampleScene \<lparr>x = u, y = v\<rparr> = Some (Cartesian3 u v (4 * v))"
  by (simp add: exampleScene_def examplePick_def)

lemma example_samples_ground:
  "sampleWindowPoints exampleScene \<lparr>x = 0, y = 0\<rparr> \<lparr>x = 0, y = 1\<rparr>
     = Inr [\<lparr>x = 0, y = 0\<rparr>, \<lparr>x = 0, y = 0\<rparr>, \<lparr>x = 0, y = 1\<rparr>]"
  by (simp add: sampleWindowPoints_eq exampleScene_def findWindowPositionByPixelInterval_def)

lemma example_detail_ground:
  "calculateDetailSurfaceLength exampleScene \<lparr>x = 0, y = 1\<rparr> \<lparr>x = 0, y = 0\<rparr> = 5"
proof -
  have "sqrt (25::real) = 5" by (rule real_sqrt_unique) simp_all
  then show ?thesis
    by (simp add: calculateDetailSurfaceLength_def exampleScene_def examplePick_def
          exampleSurfaceDistance_def)
qed

text \<open>
  C6. When both terrain picks of a segment succeed, its length is
  \<open>sqrt (surfaceDistance\<^sup>2 + heightDelta\<^sup>2)\<close>, with the geodesic surface distance
  between the two picked points and the difference of their heights. The surface distance
  returned is the sum of the segment lengths over all consecutive pairs of the sample list.
\<close>

theorem segment_length_and_total:
  "(pickCartesian3 this a = Some wa \<and> pickCartesian3 this b = Some wb \<longrightarrow>
      calculateDetailSurfaceLength this a b =
        sqrt ((surfaceDistance this (fromCartesian this wa) (fromCartesian this wb))\<^sup>2 +
              (height (fromCartesian this wa) - height (fromCartesian this wb))\<^sup>2)) \<and>
   (\<exists>pts. sampleWindowPoints this startPoint endPoint = Inr pts \<and>
      calculateSurfaceDistance this startPoint endPoint =
        Inr (\<Sum>k < length pts - 1.
               calculateDetailSurfaceLength this (pts ! (k + 1)) (pts ! k)))"
proof
  show "pickCartesian3 this a = Some wa \<and> pickCartesian3 this b = Some wb \<longrightarrow>
      calculateDetailSurfaceLength this a b =
        sqrt ((surfaceDistance this (fromCartesian this wa) (fromCartesian this wb))\<^sup>2 +
              (height (fromCartesian this wa) - height (fromCartesian this wb))\<^sup>2)"
    by (simp add: calculateDetailSurfaceLength_def Let_def)
next
  show "\<exists>pts. sampleWindowPoints this startPoint endPoint = Inr pts \<and>
      calculateSurfaceDistance this startPoint endPoint =
        Inr (\<Sum>k < length pts - 1.
               calculateDetailSurfaceLength this (pts ! (k + 1)) (pts ! k))"
    by (rule calculateSurfaceDistance_eq)
qed

theorem segment_length_and_total_witness:
  "pickCartesian3 exampleScene \<lparr>x = 0, y = 1\<rparr> = Some (Cartesian3 0 1 4) \<and>
   pickCartesian3 exampleScene \<lparr>x = 0, y = 0\<rparr> = Some (Cartesian3 0 0 0) \<and>
   calculateDetailSurfaceLength exampleScene \<lparr>x = 0, y = 1\<rparr> \<lparr>x = 0, y = 0\<rparr> = 5 \<and>
   calculateSurfaceDistance exampleScene \<lparr>x = 0, y = 0\<rparr> \<lparr>x = 0, y = 1\<rparr> = Inr 5"
proof -
  have p1: "pickCartesian3 exampleScene \<lparr>x = 0, y = 1\<rparr> = Some (Cartesian3 0 1 4)"
    using example_pick_ground [of 1 0] by simp
  have p0: "pickCartesian3 exampleScene \<lparr>x = 0, y = 0\<rparr> = Some (Cartesian3 0 0 0)"
    using example_pick_ground [of 0 0] by simp
  have d0: "calculateDetailSurfaceLength exampleScene \<lparr>x = 0, y = 0\<rparr> \<lparr>x = 0, y = 0\<rparr> = 0"
    by (simp add: calculateDetailSurfaceLength_def exampleScene_def examplePick_def
          exampleSurfaceDistance_def)
  have two: "{..<2::nat} = {0, 1}" by auto
  from segment_length_and_total [of exampleScene "\<lparr>x = 0, y = 1\<rparr>" "Cartesian3 0 1 4"
      "\<lparr>x = 0, y = 0\<rparr>" "Cartesian3 0 0 0" "\<lparr>x = 0, y = 0\<rparr>" "\<lparr>x = 0, y = 1\<rparr>"]
    p1 p0 d0 example_samples_ground example_detail_ground two
  show ?thesis by auto
qed

section \<open>Slant distance and geodesic distance\<close>










subsection \<open>Rounding to the nearest integer\<close>






subsection \<open>Rounding at a known binary exponent\<close>









subsection \<open>The root of the rounded sum of squares\<close>






section \<open>Projection misses\<close>

text \<open>
  C4. The claim: a missing projection is absorbed and \<open>getDistance\<close> still returns a
  number. In the example scene the world point \<open>(0, 0, - 1)\<close> is behind the camera and has
  no projection, the point \<open>(0, 1, 0)\<close> has one. With the first as either endpoint
  \<open>getDistance\<close> raises a \<open>TypeError\<close>: the \<open>!\<close> of lines 129 and 133 is erased, and
  \<open>_calculateSurfaceDistance\<close> reads \<open>.x\<close> of \<open>undefined\<close>.
\<close>

theorem getDistance_projection_miss:
  "worldToWindowCoordinates exampleScene (Cartesian3 0 0 (- 1)) = None \<and>
   worldToWindowCoordinates exampleScene (Cartesian3 0 1 0) = Some \<lparr>x = 0, y = 1\<rparr> \<and>
   getDistance exampleScene (Cartesian3 0 0 (- 1)) (Cartesian3 0 1 0) = Inl TypeError \<and>
   getDistance exampleScene (Cartesian3 0 1 0) (Cartesian3 0 0 (- 1)) = Inl TypeError"
  by (simp add: getDistance_def exampleScene_def)

section \<open>The lifecycle\<close>

lemma Measure_new_idle:
  "Measure_new (Some \<lparr>isDestroyed = False, primitivesHoldLabels = False\<rparr>) False
     = Inr idleMeasure"
  by (simp add: Measure_new_def idleMeasure_def)

lemma Measure_start_not_INIT:
  "status this \<noteq> INIT \<Longrightarrow> Measure_start type options this = this"
  by (simp add: Measure_start_def)

lemma Measure_start_after_destroy:
  "Measure_start type options (Measure_destroy this) = Measure_destroy this"
  by (simp add: Measure_start_def Measure_destroy_def Let_def)

lemma DistanceSurfaceMeasure_start_twice:
  "status this = INIT \<Longrightarrow>
   DistanceSurfaceMeasure_start style' (DistanceSurfaceMeasure_start style0 this)
     = DistanceSurfaceMeasure_start style0 this"
  by (simp add: DistanceSurfaceMeasure_start_def Measure_start_def Let_def)

text \<open>
  C8. \<open>_start\<close> acts only in \<open>INIT\<close>. In \<open>WORKING\<close> or \<open>DESTROY\<close> it returns the
  instance as it was: status, labels and drawing tool unchanged. From \<open>INIT\<close> it leaves
  the status \<open>WORKING\<close>, and a second \<open>_start\<close> right after it changes nothing, so that
  the drawing tool has received one \<open>start\<close> call and holds one shape in progress.
\<close>

theorem start_only_from_INIT:
  "(status this \<noteq> INIT \<longrightarrow> Measure_start type options this = this) \<and>
   (status this = INIT \<longrightarrow>
      status (Measure_start type options this) = WORKING \<and>
      Measure_start type' options' (Measure_start type options this)
        = Measure_start type options this \<and>
      (\<exists>config. calls (drawer (Measure_start type' options' (Measure_start type options this)))
                 = calls (drawer this) @ [DrawerStart config] \<and>
               inProgress (drawer (Measure_start type' options' (Measure_start type options this)))
                 = Some config \<and> drawType config = type))"
  by (simp add: Measure_start_def Drawer_start_def Let_def)

theorem start_only_from_INIT_witness:
  "status (Measure_start POLYLINE None idleMeasure) \<noteq> INIT \<and>
   Measure_start POLYGON None (Measure_start POLYLINE None idleMeasure)
     = Measure_start POLYLINE None idleMeasure \<and>
   status idleMeasure = INIT \<and>
   status (Measure_start POLYLINE None idleMeasure) = WORKING \<and>
   calls (drawer (Measure_start POLYGON None (Measure_start POLYLINE None idleMeasure)))
     = [DrawerStart \<lparr>drawType = POLYLINE,
                      dynamicOptions = \<lparr>style = None, clampToGround = None\<rparr>,
                      finalOptions = \<lparr>style = None, clampToGround = None\<rparr>\<rparr>]"
  using start_only_from_INIT [of "Measure_start POLYLINE None idleMeasure" POLYGON None]
    start_only_from_INIT [of idleMeasure POLYLINE None POLYGON None]
  by (simp add: idleMeasure_def Measure_start_def Drawer_start_def Let_def)

text \<open>
  C9. \<open>end()\<close> resets the drawing tool, which clears the shape in progress, empties the
  label collection and sets the status to \<open>INIT\<close>, from any status. After a second
  \<open>end()\<close> the status, the labels, the shape in progress, the tooltip and the viewer are
  those after the first; the drawing tool has received one more \<open>reset\<close>.
\<close>

theorem end_resets_and_is_idempotent:
  "status (Measure_end this) = INIT \<and>
   labels (Measure_end this) = [] \<and>
   inProgress (drawer (Measure_end this)) = None \<and>
   calls (drawer (Measure_end this)) = calls (drawer this) @ [DrawerReset] \<and>
   status (Measure_end (Measure_end this)) = status (Measure_end this) \<and>
   labels (Measure_end (Measure_end this)) = labels (Measure_end this) \<and>
   inProgress (drawer (Measure_end (Measure_end this))) = inProgress (drawer (Measure_end this)) \<and>
   mouseTooltip (Measure_end (Measure_end this)) = mouseTooltip (Measure_end this) \<and>
   viewer (Measure_end (Measure_end this)) = viewer (Measure_end this) \<and>
   calls (drawer (Measure_end (Measure_end this)))
     = calls (drawer (Measure_end this)) @ [DrawerReset]"
  by (simp add: Measure_end_def Drawer_reset_def)

text \<open>
  C2. After \<open>destroy()\<close> the status is \<open>DESTROY\<close> and \<open>destroyed\<close> is true. A following
  \<open>end()\<close> has no test of the status: it calls \<open>drawer.reset()\<close> and sets the status to
  \<open>INIT\<close>, so \<open>destroyed\<close> is false again. (\<open>_start\<close> after \<open>destroy()\<close> does nothing,
  see \<open>Measure_start_after_destroy\<close>.)
\<close>

theorem end_after_destroy_leaves_DESTROY:
  "status (Measure_destroy this) = DESTROY \<and>
   Measure_destroyed (Measure_destroy this) \<and>
   status (Measure_end (Measure_destroy this)) = INIT \<and>
   \<not> Measure_destroyed (Measure_end (Measure_destroy this)) \<and>
   calls (drawer (Measure_end (Measure_destroy this)))
     = calls (drawer (Measure_destroy this)) @ [DrawerReset]"
  by (simp add: Measure_end_def Measure_destroy_def Measure_destroyed_def Drawer_reset_def Let_def)

end
